theory Spec2Isabelle
  imports Complex_Main
begin

section \<open>Messages, exceptions and observable effects\<close>

text \<open>
  The script \<^verbatim>\<open>keras_takePictures_detect_signs_move2.py\<close> holds two classes,
  \<^verbatim>\<open>ImageClassifierNode\<close> and \<^verbatim>\<open>SignalBehaviorNode\<close>. Their methods are embedded
  below as functions from the object's fields (a record) to the updated fields and the
  list of calls the method makes on the outside world, in program order.

  Python floats only occur as literals that are stored and published, never computed
  with; they are written as the decimal numbers the literals denote.
\<close>

text \<open>
  The two \<^verbatim>\<open>except\<close> clauses of \<^verbatim>\<open>image_callback\<close> tell \<^verbatim>\<open>CvBridgeError\<close> from every
  other \<^verbatim>\<open>Exception\<close>; the payload is the text \<^verbatim>\<open>str(e)\<close> that the log line
  interpolates.
\<close>

datatype exn = CvBridgeError string | OtherException string

text \<open>\<^verbatim>\<open>geometry_msgs/Twist\<close>: two vectors of three floats, all zero after \<^verbatim>\<open>Twist()\<close>.\<close>

record twist =
  linear_x :: real
  linear_y :: real
  linear_z :: real
  angular_x :: real
  angular_y :: real
  angular_z :: real

definition Twist :: twist where
  "Twist = \<lparr>linear_x = 0, linear_y = 0, linear_z = 0,
            angular_x = 0, angular_y = 0, angular_z = 0\<rparr>"

text \<open>
  The log lines of the script, one constructor per format string, with the values the
  f-string interpolates as arguments.
\<close>

datatype log_msg =
    CaptureLog string
  | ImageLog int string real
  | BridgeErrLog string
  | ProcessErrLog string
  | SignalLog string
  | StopLog string
  | LeftLog
  | RightLog
  | ForwardLog
  | UnknownLog string

text \<open>
  The calls a method makes, in order: \<^verbatim>\<open>rospy.loginfo\<close>, \<^verbatim>\<open>rospy.logerr\<close>,
  \<^verbatim>\<open>rospy.loginfo_throttle\<close> (with its period), \<^verbatim>\<open>class_pub.publish\<close>,
  \<^verbatim>\<open>cmd_vel_pub.publish\<close>, entering and leaving \<^verbatim>\<open>with self.command_lock\<close>, a read and
  a write of \<^verbatim>\<open>self.current_command\<close>, \<^verbatim>\<open>rospy.is_shutdown()\<close> with its answer, and
  \<^verbatim>\<open>rate.sleep()\<close>.
\<close>

datatype effect =
    LogInfo log_msg
  | LogErr log_msg
  | LogInfoThrottle real log_msg
  | PublishClass string
  | PublishVel twist
  | Acquire
  | Release
  | ReadCommand string
  | WriteCommand string
  | IsShutdown bool
  | Sleep

fun published_labels :: "effect list \<Rightarrow> string list" where
  "published_labels [] = []"
| "published_labels (PublishClass l # tr) = l # published_labels tr"
| "published_labels (_ # tr) = published_labels tr"

fun published_twists :: "effect list \<Rightarrow> twist list" where
  "published_twists [] = []"
| "published_twists (PublishVel t # tr) = t # published_twists tr"
| "published_twists (_ # tr) = published_twists tr"


definition velocity_commands :: "effect list \<Rightarrow> (real \<times> real) list" where
  "velocity_commands tr = map (\<lambda>t. (linear_x t, angular_z t)) (published_twists tr)"

fun is_log :: "effect \<Rightarrow> bool" where
  "is_log (LogInfo _) = True"
| "is_log (LogErr _) = True"
| "is_log (LogInfoThrottle _ _) = True"
| "is_log _ = False"

fun is_io :: "effect \<Rightarrow> bool" where
  "is_io (PublishClass _) = True"
| "is_io (PublishVel _) = True"
| "is_io Sleep = True"
| "is_io (IsShutdown _) = True"
| "is_io e = is_log e"

text \<open>
  The calls made while the lock is held: those after an \<^verbatim>\<open>Acquire\<close> and before the
  next \<^verbatim>\<open>Release\<close>. The flag says whether the lock is held at the head of the list.
\<close>

fun held :: "bool \<Rightarrow> effect list \<Rightarrow> effect list" where
  "held h [] = []"
| "held h (Acquire # tr) = held True tr"
| "held h (Release # tr) = held False tr"
| "held h (e # tr) = (if h then e # held h tr else held h tr)"

section \<open>ImageClassifierNode\<close>

text \<open>
  The fields \<^verbatim>\<open>__init__\<close> sets that later code reads or writes. The model, the bridge,
  the publisher and the capture directory are handles on the outside world.
\<close>

record classifier_state =
  labels :: "string list"
  capture_enabled :: bool
  last_capture_time :: real
  capture_interval :: real
  image_count :: int
  debug_interval :: int

text \<open>
  \<^verbatim>\<open>__init__\<close>, given the label list \<^verbatim>\<open>load_labels\<close> returned and the clock reading of
  \<^verbatim>\<open>time.time()\<close>.
\<close>

definition classifier_init :: "string list \<Rightarrow> real \<Rightarrow> classifier_state" where
  "classifier_init ls now =
     \<lparr>labels = ls, capture_enabled = True, last_capture_time = now,
      capture_interval = 1.0, image_count = 0, debug_interval = 10\<rparr>"

text \<open>
  The library calls of \<^verbatim>\<open>image_callback\<close>, each of which may raise:
  \<^verbatim>\<open>bridge.imgmsg_to_cv2\<close>; \<^verbatim>\<open>cv2.resize\<close> with the scaling to \<open>[0,1]\<close> and
  \<^verbatim>\<open>np.expand_dims\<close>; \<^verbatim>\<open>model.predict\<close>; \<^verbatim>\<open>np.argmax\<close>; and the read
  \<^verbatim>\<open>predictions[0][class_index]\<close>.
\<close>

record ('m, 'i, 'p) externals =
  imgmsg_to_cv2 :: "'m \<Rightarrow> exn + 'i"
  prepare :: "'i \<Rightarrow> exn + 'i"
  predict :: "'i \<Rightarrow> exn + 'p"
  argmax :: "'p \<Rightarrow> exn + nat"
  confidence_at :: "'p \<Rightarrow> nat \<Rightarrow> exn + real"

text \<open>\<^verbatim>\<open>toggle_callback\<close>, lines 54 to 57.\<close>

definition toggle_callback ::
  "classifier_state \<Rightarrow> bool \<Rightarrow> classifier_state \<times> effect list" where
  "toggle_callback s data =
     (let s' = s\<lparr>capture_enabled := data\<rparr>;
          state = (if capture_enabled s' then ''ACTIVADA'' else ''DESACTIVADA'')
      in (s', [LogInfo (CaptureLog state)]))"

text \<open>
  Lines 62 to 70 of \<^verbatim>\<open>image_callback\<close>: from the message to the class name and its
  confidence. \<^verbatim>\<open>self.labels[class_index]\<close> raises \<^verbatim>\<open>IndexError\<close> past the end of the
  list (the index \<^verbatim>\<open>np.argmax\<close> returns is never negative).
\<close>

definition classify ::
  "('m, 'i, 'p) externals \<Rightarrow> string list \<Rightarrow> 'm \<Rightarrow> exn + (string \<times> real)" where
  "classify ext ls msg =
     (case imgmsg_to_cv2 ext msg of Inl e \<Rightarrow> Inl e | Inr cv_image \<Rightarrow>
     (case prepare ext cv_image of Inl e \<Rightarrow> Inl e | Inr img \<Rightarrow>
     (case predict ext img of Inl e \<Rightarrow> Inl e | Inr predictions \<Rightarrow>
     (case argmax ext predictions of Inl e \<Rightarrow> Inl e | Inr class_index \<Rightarrow>
        if length ls \<le> class_index then Inl (OtherException ''list index out of range'')
        else (case confidence_at ext predictions class_index of Inl e \<Rightarrow> Inl e
              | Inr confidence \<Rightarrow> Inr (ls ! class_index, confidence))))))"

text \<open>
  The body of the \<^verbatim>\<open>try\<close>, lines 62 to 75, run on the fields after the increment of
  line 60. \<^verbatim>\<open>%\<close> raises \<^verbatim>\<open>ZeroDivisionError\<close> on a zero divisor; on Python's unbounded
  integers it is the floored remainder, as \<open>mod\<close> on \<open>int\<close>.
\<close>

definition try_body ::
  "('m, 'i, 'p) externals \<Rightarrow> classifier_state \<Rightarrow> 'm \<Rightarrow> exn + effect list" where
  "try_body ext s msg =
     (case classify ext (labels s) msg of Inl e \<Rightarrow> Inl e
      | Inr (class_name, confidence) \<Rightarrow>
          if debug_interval s = 0 then Inl (OtherException ''integer modulo by zero'')
          else Inr ((if image_count s mod debug_interval s = 0
                     then [LogInfo (ImageLog (image_count s) class_name confidence)]
                     else [])
                    @ [PublishClass class_name]))"

text \<open>\<^verbatim>\<open>image_callback\<close>, lines 59 to 80.\<close>

definition image_callback ::
  "('m, 'i, 'p) externals \<Rightarrow> classifier_state \<Rightarrow> 'm
     \<Rightarrow> classifier_state \<times> effect list" where
  "image_callback ext s msg =
     (let s' = s\<lparr>image_count := image_count s + 1\<rparr>
      in case try_body ext s' msg of
           Inr tr \<Rightarrow> (s', tr)
         | Inl (CvBridgeError e) \<Rightarrow> (s', [LogErr (BridgeErrLog e)])
         | Inl (OtherException e) \<Rightarrow> (s', [LogErr (ProcessErrLog e)]))"

section \<open>SignalBehaviorNode\<close>

record behavior_state =
  robot_x :: real
  robot_y :: real
  current_command :: string

text \<open>\<^verbatim>\<open>__init__\<close>, lines 87 to 89; the control thread starts after them, at line 99.\<close>

definition behavior_init :: behavior_state where
  "behavior_init = \<lparr>robot_x = 0.0, robot_y = 0.0, current_command = ''Nothing''\<rparr>"

text \<open>\<^verbatim>\<open>odom_callback\<close>, lines 103 to 105, on the position of the odometry message.\<close>

definition odom_callback ::
  "behavior_state \<Rightarrow> real \<Rightarrow> real \<Rightarrow> behavior_state \<times> effect list" where
  "odom_callback s x y = (s\<lparr>robot_x := x, robot_y := y\<rparr>, [])"

text \<open>
  \<^verbatim>\<open>class_callback\<close>, lines 107 to 110: the assignment and the log line, which reads
  the field back, are both inside the \<^verbatim>\<open>with\<close> block.
\<close>

definition class_callback ::
  "behavior_state \<Rightarrow> string \<Rightarrow> behavior_state \<times> effect list" where
  "class_callback s data =
     (let s' = s\<lparr>current_command := data\<rparr>
      in (s', [Acquire, WriteCommand data, ReadCommand (current_command s'),
               LogInfo (SignalLog (current_command s')), Release]))"

text \<open>
  The \<^verbatim>\<open>if\<close>/\<^verbatim>\<open>elif\<close> chain of \<^verbatim>\<open>motion_loop\<close>, lines 119 to 138, on the local \<^verbatim>\<open>cmd\<close>
  and the fresh \<^verbatim>\<open>twist\<close> of line 115: the twist after the branch and the message the
  branch hands to \<^verbatim>\<open>loginfo_throttle\<close>.
\<close>

definition motion_branch :: "string \<Rightarrow> twist \<times> log_msg" where
  "motion_branch cmd =
     (if cmd \<in> set [''Stop'', ''Give_Way'']
        then (Twist\<lparr>linear_x := 0.0, angular_z := 0.0\<rparr>, StopLog cmd)
      else if cmd = ''Turn_Left''
        then (Twist\<lparr>linear_x := 0.0, angular_z := 0.5\<rparr>, LeftLog)
      else if cmd = ''Turn_Right''
        then (Twist\<lparr>linear_x := 0.0, angular_z := - 0.5\<rparr>, RightLog)
      else if cmd = ''Nothing''
        then (Twist\<lparr>linear_x := 0.2, angular_z := 0.0\<rparr>, ForwardLog)
      else (Twist\<lparr>linear_x := 0.0, angular_z := 0.0\<rparr>, UnknownLog cmd))"

text \<open>
  One pass through the body of the \<^verbatim>\<open>while\<close>, lines 115 to 141, in which every call
  returns. It changes no field.
\<close>

definition motion_loop_body :: "behavior_state \<Rightarrow> effect list" where
  "motion_loop_body s =
     (let cmd = current_command s;
          (twist, msg) = motion_branch cmd
      in [Acquire, ReadCommand cmd, Release,
          LogInfoThrottle 2.0 msg, PublishVel twist, Sleep])"



section \<open>The two nodes on the bus\<close>

text \<open>
  What reaches the process: a camera frame, a message on \<^verbatim>\<open>/capture_toggle\<close>, an
  odometry position, and one pass of the control loop. The classifier publishes on
  \<^verbatim>\<open>/predicted_class\<close> (line 31) and the behaviour node subscribes to it (line 94); the
  bus between them is taken as a queue of labels in flight, of which the oldest is
  either handed to \<^verbatim>\<open>class_callback\<close> or lost. Every handler runs as one step: the lock
  makes the write of \<^verbatim>\<open>class_callback\<close> and the read of the loop exclusive, and no
  other field is shared between two handlers.
\<close>

datatype 'm event = Frame 'm | Toggle bool | Odom real real | Deliver | Lose | Tick

record system =
  clf :: classifier_state
  beh :: behavior_state
  in_flight :: "string list"

definition system_init :: "string list \<Rightarrow> real \<Rightarrow> system" where
  "system_init ls now =
     \<lparr>clf = classifier_init ls now, beh = behavior_init, in_flight = []\<rparr>"

fun step ::
  "('m, 'i, 'p) externals \<Rightarrow> system \<Rightarrow> 'm event \<Rightarrow> system \<times> effect list" where
  "step ext sys (Frame msg) =
     (let (c, tr) = image_callback ext (clf sys) msg
      in (sys\<lparr>clf := c, in_flight := in_flight sys @ published_labels tr\<rparr>, tr))"
| "step ext sys (Toggle b) =
     (let (c, tr) = toggle_callback (clf sys) b in (sys\<lparr>clf := c\<rparr>, tr))"
| "step ext sys (Odom x y) =
     (let (b, tr) = odom_callback (beh sys) x y in (sys\<lparr>beh := b\<rparr>, tr))"
| "step ext sys Deliver =
     (case in_flight sys of [] \<Rightarrow> (sys, [])
      | l # ls \<Rightarrow> let (b, tr) = class_callback (beh sys) l
                  in (sys\<lparr>beh := b, in_flight := ls\<rparr>, tr))"
| "step ext sys Lose = (sys\<lparr>in_flight := tl (in_flight sys)\<rparr>, [])"
| "step ext sys Tick = (sys, motion_loop_body (beh sys))"

fun run ::
  "('m, 'i, 'p) externals \<Rightarrow> system \<Rightarrow> 'm event list \<Rightarrow> system \<times> effect list" where
  "run ext sys [] = (sys, [])"
| "run ext sys (e # es) =
     (let (sys', tr) = step ext sys e;
          (sys'', tr') = run ext sys' es
      in (sys'', tr @ tr'))"

fun is_Toggle :: "'m event \<Rightarrow> bool" where
  "is_Toggle (Toggle _) = True"
| "is_Toggle _ = False"

fun is_Odom :: "'m event \<Rightarrow> bool" where
  "is_Odom (Odom _ _) = True"
| "is_Odom _ = False"

fun is_Frame :: "'m event \<Rightarrow> bool" where
  "is_Frame (Frame _) = True"
| "is_Frame _ = False"



text \<open>
  Two states of the process that differ at most in the capture flag, at most in the
  stored pose, or at most in the frame counter.
\<close>

definition same_but_flag :: "system \<Rightarrow> system \<Rightarrow> bool" where
  "same_but_flag s1 s2 =
     (beh s2 = beh s1 \<and> in_flight s2 = in_flight s1
      \<and> clf s2 = (clf s1)\<lparr>capture_enabled := capture_enabled (clf s2)\<rparr>)"

definition same_but_pose :: "system \<Rightarrow> system \<Rightarrow> bool" where
  "same_but_pose s1 s2 =
     (clf s2 = clf s1 \<and> in_flight s2 = in_flight s1
      \<and> beh s2 = (beh s1)\<lparr>robot_x := robot_x (beh s2), robot_y := robot_y (beh s2)\<rparr>)"

definition same_but_count :: "system \<Rightarrow> system \<Rightarrow> bool" where
  "same_but_count s1 s2 =
     (beh s2 = beh s1 \<and> in_flight s2 = in_flight s1
      \<and> clf s2 = (clf s1)\<lparr>image_count := image_count (clf s2)\<rparr>)"

text \<open>A list of calls that logs nothing and does no I/O while the lock is held.\<close>

definition quiet_while_locked :: "effect list \<Rightarrow> bool" where
  "quiet_while_locked tr = (filter is_io (held False tr) = [])"

text \<open>
  A stand-in for the libraries, to run the callbacks on concrete frames. A frame is a
  number: frame 0 does not decode, frame 1 makes the model fail, and frame \<open>n + 2\<close> is
  classified as class \<open>n\<close> with confidence 0.9.
\<close>

definition stub_externals :: "(nat, nat, nat) externals" where
  "stub_externals =
     \<lparr>imgmsg_to_cv2 = (\<lambda>m. if m = 0 then Inl (CvBridgeError ''encoding'') else Inr m),
      prepare = Inr,
      predict = (\<lambda>i. if i = 1 then Inl (OtherException ''predict'') else Inr (i - 2)),
      argmax = Inr,
      confidence_at = (\<lambda>p i. Inr 0.9)\<rparr>"

definition stub_labels :: "string list" where
  "stub_labels = [''Stop'', ''Give_Way'', ''Turn_Left'', ''Turn_Right'', ''Nothing'']"







section \<open>Runs of the process\<close>

lemma published_labels_append [simp]:
  "published_labels (a @ b) = published_labels a @ published_labels b"
  by (induction a rule: published_labels.induct) simp_all

lemma published_twists_append [simp]:
  "published_twists (a @ b) = published_twists a @ published_twists b"
  by (induction a rule: published_twists.induct) simp_all

lemma velocity_commands_append [simp]:
  "velocity_commands (a @ b) = velocity_commands a @ velocity_commands b"
  by (simp add: velocity_commands_def)

lemma velocity_commands_Nil [simp]: "velocity_commands [] = []"
  by (simp add: velocity_commands_def)

lemma image_callback_fields:
  "fst (image_callback ext s msg) = s\<lparr>image_count := image_count s + 1\<rparr>"
  by (simp add: image_callback_def Let_def split: sum.split exn.split)

lemma image_callback_failed:
  assumes "classify ext (labels s) msg = Inl e"
  shows "snd (image_callback ext s msg) =
           [LogErr (case e of CvBridgeError t \<Rightarrow> BridgeErrLog t
                    | OtherException t \<Rightarrow> ProcessErrLog t)]"
  using assms
  by (simp add: image_callback_def try_body_def Let_def split: exn.split)

lemma image_callback_labels:
  "published_labels (snd (image_callback ext s msg)) =
     (case classify ext (labels s) msg of Inl e \<Rightarrow> []
      | Inr (class_name, confidence) \<Rightarrow> if debug_interval s = 0 then [] else [class_name])"
  by (simp add: image_callback_def try_body_def Let_def
           split: sum.split exn.split prod.split)

lemma image_callback_twists:
  "published_twists (snd (image_callback ext s msg)) = []"
  by (simp add: image_callback_def try_body_def Let_def
           split: sum.split exn.split prod.split)

lemma image_callback_flag:
  "image_callback ext (s\<lparr>capture_enabled := b\<rparr>) msg =
     ((fst (image_callback ext s msg))\<lparr>capture_enabled := b\<rparr>,
      snd (image_callback ext s msg))"
  by (simp add: image_callback_def try_body_def Let_def
           split: sum.split exn.split prod.split)

lemma run_Cons:
  "run ext sys (e # es) =
     (fst (run ext (fst (step ext sys e)) es),
      snd (step ext sys e) @ snd (run ext (fst (step ext sys e)) es))"
  by (simp split: prod.split)

lemma run_skipping:
  assumes hom: "\<And>a b. f (a @ b) = f a @ f b"
    and unit: "f [] = []"
    and keep: "\<And>s1 s2 e. R s1 s2 \<Longrightarrow> \<not> P e \<Longrightarrow>
                 R (fst (step ext s1 e)) (fst (step ext s2 e))
                 \<and> f (snd (step ext s1 e)) = f (snd (step ext s2 e))"
    and skip: "\<And>s1 s2 e. R s1 s2 \<Longrightarrow> P e \<Longrightarrow>
                 R (fst (step ext s1 e)) s2 \<and> f (snd (step ext s1 e)) = []"
    and rel: "R s1 s2"
  shows "f (snd (run ext s1 es)) = f (snd (run ext s2 (filter (\<lambda>e. \<not> P e) es)))"
  using rel
proof (induction es arbitrary: s1 s2)
  case Nil
  then show ?case by simp
next
  case (Cons e es)
  show ?case
  proof (cases "P e")
    case True
    from skip [OF Cons.prems True]
    have r: "R (fst (step ext s1 e)) s2" and q: "f (snd (step ext s1 e)) = []"
      by simp_all
    from Cons.IH [OF r] q True show ?thesis
      by (simp add: hom run_Cons del: run.simps(2))
  next
    case False
    from keep [OF Cons.prems False]
    have r: "R (fst (step ext s1 e)) (fst (step ext s2 e))"
      and q: "f (snd (step ext s1 e)) = f (snd (step ext s2 e))"
      by simp_all
    from Cons.IH [OF r] q False show ?thesis
      by (simp add: hom run_Cons del: run.simps(2))
  qed
qed



lemma same_but_flag_refl: "same_but_flag s s"
  by (simp add: same_but_flag_def)

lemma same_but_pose_refl: "same_but_pose s s"
  by (simp add: same_but_pose_def)

lemma same_but_count_refl: "same_but_count s s"
  by (simp add: same_but_count_def)

lemma image_callback_count_blind:
  "published_labels (snd (image_callback ext (s\<lparr>image_count := n\<rparr>) msg))
     = published_labels (snd (image_callback ext s msg))"
  by (simp add: image_callback_labels split: sum.split prod.split)

lemma step_same_but_flag:
  assumes "same_but_flag s1 s2" and "\<not> is_Toggle e"
  shows "same_but_flag (fst (step ext s1 e)) (fst (step ext s2 e))
       \<and> snd (step ext s1 e) = snd (step ext s2 e)"
proof -
  from assms(1) obtain b where c: "clf s2 = (clf s1)\<lparr>capture_enabled := b\<rparr>"
    and b: "beh s2 = beh s1" and q: "in_flight s2 = in_flight s1"
    unfolding same_but_flag_def by blast
  show ?thesis
    using assms(2)
    by (cases e)
       (simp_all add: same_but_flag_def b c q image_callback_flag case_prod_beta
          image_callback_fields split: list.split)
qed

lemma step_toggle_flag:
  assumes "same_but_flag s1 s2" and "is_Toggle e"
  shows "same_but_flag (fst (step ext s1 e)) s2
       \<and> published_labels (snd (step ext s1 e)) = []
       \<and> published_twists (snd (step ext s1 e)) = []"
proof -
  from assms(2) obtain b where e: "e = Toggle b" by (cases e) simp_all
  from assms(1) show ?thesis
    unfolding e same_but_flag_def
    by (simp add: toggle_callback_def Let_def)
qed

lemma step_same_but_pose:
  assumes "same_but_pose s1 s2" and "\<not> is_Odom e"
  shows "same_but_pose (fst (step ext s1 e)) (fst (step ext s2 e))
       \<and> snd (step ext s1 e) = snd (step ext s2 e)"
proof -
  from assms(1) obtain x y where b: "beh s2 = (beh s1)\<lparr>robot_x := x, robot_y := y\<rparr>"
    and c: "clf s2 = clf s1" and q: "in_flight s2 = in_flight s1"
    unfolding same_but_pose_def by blast
  show ?thesis
    using assms(2)
    by (cases e)
       (simp_all add: same_but_pose_def b c q case_prod_beta class_callback_def
          motion_loop_body_def Let_def split: list.split)
qed

lemma step_odom_pose:
  assumes "same_but_pose s1 s2" and "is_Odom e"
  shows "same_but_pose (fst (step ext s1 e)) s2 \<and> snd (step ext s1 e) = []"
proof -
  from assms(2) obtain x y where e: "e = Odom x y" by (cases e) simp_all
  from assms(1) show ?thesis
    unfolding e same_but_pose_def
    by (simp add: odom_callback_def)
qed

lemma step_same_but_count:
  assumes "same_but_count s1 s2"
  shows "same_but_count (fst (step ext s1 e)) (fst (step ext s2 e))
       \<and> published_labels (snd (step ext s1 e)) = published_labels (snd (step ext s2 e))
       \<and> published_twists (snd (step ext s1 e)) = published_twists (snd (step ext s2 e))"
proof -
  from assms(1) obtain n where c: "clf s2 = (clf s1)\<lparr>image_count := n\<rparr>"
    and b: "beh s2 = beh s1" and q: "in_flight s2 = in_flight s1"
    unfolding same_but_count_def by blast
  show ?thesis
    by (cases e)
       (simp_all add: same_but_count_def b c q case_prod_beta image_callback_fields
          image_callback_count_blind image_callback_twists toggle_callback_def Let_def
          split: list.split)
qed


lemma run_toggle_blind:
  assumes "same_but_flag s1 s2"
  shows "published_labels (snd (run ext s1 es))
           = published_labels (snd (run ext s2 (filter (\<lambda>e. \<not> is_Toggle e) es)))"
    and "published_twists (snd (run ext s1 es))
           = published_twists (snd (run ext s2 (filter (\<lambda>e. \<not> is_Toggle e) es)))"
  by (rule run_skipping [where R = same_but_flag and P = is_Toggle];
      simp add: step_same_but_flag step_toggle_flag assms)+

lemma run_pose_blind:
  assumes "same_but_pose s1 s2"
  shows "published_labels (snd (run ext s1 es))
           = published_labels (snd (run ext s2 (filter (\<lambda>e. \<not> is_Odom e) es)))"
    and "published_twists (snd (run ext s1 es))
           = published_twists (snd (run ext s2 (filter (\<lambda>e. \<not> is_Odom e) es)))"
  by (rule run_skipping [where R = same_but_pose and P = is_Odom];
      simp add: step_same_but_pose step_odom_pose assms)+

lemma run_count_blind:
  assumes "same_but_count s1 s2"
  shows "published_labels (snd (run ext s1 es)) = published_labels (snd (run ext s2 es))"
    and "published_twists (snd (run ext s1 es)) = published_twists (snd (run ext s2 es))"
  using run_skipping [where R = same_but_count and P = "\<lambda>e. False" and f = published_labels
                        and ?s1.0 = s1 and ?s2.0 = s2 and ext = ext and es = es]
        run_skipping [where R = same_but_count and P = "\<lambda>e. False" and f = published_twists
                        and ?s1.0 = s1 and ?s2.0 = s2 and ext = ext and es = es]
  by (simp_all add: step_same_but_count assms)


section \<open>The label-to-velocity table\<close>

lemma velocity_commands_body:
  "velocity_commands (motion_loop_body s) =
     [(linear_x (fst (motion_branch (current_command s))),
       angular_z (fst (motion_branch (current_command s))))]"
  by (simp add: motion_loop_body_def velocity_commands_def Let_def split: prod.split)

text \<open>
  C1. Whatever string the control loop reads on a pass, it publishes exactly one
  velocity command, and that command is the table's entry for the string:
  \<open>(0, 0)\<close> for "Stop" and "Give_Way", \<open>(0, 0.5)\<close> for "Turn_Left", \<open>(0, -0.5)\<close> for
  "Turn_Right", \<open>(0.2, 0)\<close> for "Nothing" and \<open>(0, 0)\<close> for every other string. The
  pass has no failing branch: it yields a command for every string.
\<close>

theorem motion_table:
  fixes s :: behavior_state
  defines "out \<equiv> velocity_commands (motion_loop_body s)"
  shows "(current_command s = ''Stop'' \<or> current_command s = ''Give_Way''
            \<longrightarrow> out = [(0.0, 0.0)])
       \<and> (current_command s = ''Turn_Left'' \<longrightarrow> out = [(0.0, 0.5)])
       \<and> (current_command s = ''Turn_Right'' \<longrightarrow> out = [(0.0, - 0.5)])
       \<and> (current_command s = ''Nothing'' \<longrightarrow> out = [(0.2, 0.0)])
       \<and> (current_command s \<notin>
             {''Stop'', ''Give_Way'', ''Turn_Left'', ''Turn_Right'', ''Nothing''}
            \<longrightarrow> out = [(0.0, 0.0)])
       \<and> (\<exists>v. out = [v])"
  unfolding out_def velocity_commands_body
  by (simp add: motion_branch_def Twist_def)

theorem motion_table_witness:
  "velocity_commands
     (motion_loop_body (behavior_init\<lparr>current_command := ''Stop''\<rparr>))
     = [(0.0, 0.0)]
   \<and> velocity_commands
     (motion_loop_body (behavior_init\<lparr>current_command := ''Turn_Left''\<rparr>))
     = [(0.0, 0.5)]
   \<and> velocity_commands
     (motion_loop_body (behavior_init\<lparr>current_command := ''Turn_Right''\<rparr>))
     = [(0.0, - 0.5)]
   \<and> velocity_commands
     (motion_loop_body (behavior_init\<lparr>current_command := ''Nothing''\<rparr>))
     = [(0.2, 0.0)]
   \<and> velocity_commands
     (motion_loop_body (behavior_init\<lparr>current_command := ''Pedestrian_Crossing''\<rparr>))
     = [(0.0, 0.0)]"
  using motion_table [of "behavior_init\<lparr>current_command := ''Stop''\<rparr>"]
        motion_table [of "behavior_init\<lparr>current_command := ''Turn_Left''\<rparr>"]
        motion_table [of "behavior_init\<lparr>current_command := ''Turn_Right''\<rparr>"]
        motion_table [of "behavior_init\<lparr>current_command := ''Nothing''\<rparr>"]
        motion_table [of "behavior_init\<lparr>current_command := ''Pedestrian_Crossing''\<rparr>"]
  by (simp add: behavior_init_def)

section \<open>Before the first label\<close>






section \<open>Frames that fail\<close>

lemma classify_raises:
  assumes "imgmsg_to_cv2 ext msg = Inl e
     \<or> imgmsg_to_cv2 ext msg = Inr cv_image \<and> (prepare ext cv_image = Inl e
     \<or> prepare ext cv_image = Inr img \<and> (predict ext img = Inl e
     \<or> predict ext img = Inr predictions \<and> (argmax ext predictions = Inl e
     \<or> argmax ext predictions = Inr class_index \<and>
          (length ls \<le> class_index \<and> e = OtherException ''list index out of range''
           \<or> class_index < length ls
               \<and> confidence_at ext predictions class_index = Inl e))))"
  shows "classify ext ls msg = Inl e"
  using assms by (auto simp add: classify_def)

text \<open>
  C3. When \<^verbatim>\<open>imgmsg_to_cv2\<close> raises on the frame, or the resizing and scaling of the
  decoded image, or \<^verbatim>\<open>model.predict\<close>, or \<^verbatim>\<open>np.argmax\<close>, or the index falls past the
  end of the label list, or the read of the confidence raises, with the earlier calls
  having returned, then \<^verbatim>\<open>image_callback\<close> logs one error line with the exception's
  text and returns: it publishes no label, so nothing is queued for \<^verbatim>\<open>class_callback\<close>
  and the behaviour node's fields, among them \<^verbatim>\<open>current_command\<close>, stay as they were.
  Only the frame counter has moved, and the labels and velocity commands published from
  then on are those of a run in which the failed frame never arrived.
\<close>

theorem frame_dropped:
  assumes "imgmsg_to_cv2 ext msg = Inl e
     \<or> imgmsg_to_cv2 ext msg = Inr cv_image \<and> (prepare ext cv_image = Inl e
     \<or> prepare ext cv_image = Inr img \<and> (predict ext img = Inl e
     \<or> predict ext img = Inr predictions \<and> (argmax ext predictions = Inl e
     \<or> argmax ext predictions = Inr class_index \<and>
          (length (labels (clf sys)) \<le> class_index
             \<and> e = OtherException ''list index out of range''
           \<or> class_index < length (labels (clf sys))
               \<and> confidence_at ext predictions class_index = Inl e))))"
  shows "snd (step ext sys (Frame msg)) =
           [LogErr (case e of CvBridgeError t \<Rightarrow> BridgeErrLog t
                    | OtherException t \<Rightarrow> ProcessErrLog t)]
       \<and> published_labels (snd (step ext sys (Frame msg))) = []
       \<and> beh (fst (step ext sys (Frame msg))) = beh sys
       \<and> in_flight (fst (step ext sys (Frame msg))) = in_flight sys
       \<and> clf (fst (step ext sys (Frame msg)))
           = (clf sys)\<lparr>image_count := image_count (clf sys) + 1\<rparr>
       \<and> published_labels (snd (run ext (fst (step ext sys (Frame msg))) es))
           = published_labels (snd (run ext sys es))
       \<and> published_twists (snd (run ext (fst (step ext sys (Frame msg))) es))
           = published_twists (snd (run ext sys es))"
proof -
  have raised: "classify ext (labels (clf sys)) msg = Inl e"
    using assms by (rule classify_raises)
  have tr: "snd (step ext sys (Frame msg)) =
           [LogErr (case e of CvBridgeError t \<Rightarrow> BridgeErrLog t
                    | OtherException t \<Rightarrow> ProcessErrLog t)]"
    using image_callback_failed [OF raised] by (simp add: case_prod_beta)
  have st: "fst (step ext sys (Frame msg)) =
              sys\<lparr>clf := (clf sys)\<lparr>image_count := image_count (clf sys) + 1\<rparr>\<rparr>"
    using image_callback_failed [OF raised]
    by (simp add: case_prod_beta image_callback_fields)
  have rel: "same_but_count (fst (step ext sys (Frame msg))) sys"
    unfolding st by (simp add: same_but_count_def)
  from run_count_blind [OF rel, of ext es] tr st show ?thesis
    by (simp del: step.simps)
qed

theorem frame_dropped_witness:
  "snd (step stub_externals (system_init stub_labels 0) (Frame 0))
     = [LogErr (BridgeErrLog ''encoding'')]
   \<and> snd (step stub_externals (system_init stub_labels 0) (Frame 1))
     = [LogErr (ProcessErrLog ''predict'')]
   \<and> snd (step stub_externals (system_init stub_labels 0) (Frame 7))
     = [LogErr (ProcessErrLog ''list index out of range'')]
   \<and> published_labels
       (snd (run stub_externals
               (fst (step stub_externals (system_init stub_labels 0) (Frame 1)))
               [Frame 5, Deliver, Tick]))
     = [''Turn_Right'']"
  using frame_dropped [where ext = stub_externals and sys = "system_init stub_labels 0"
                         and msg = 0 and e = "CvBridgeError ''encoding''"
                         and es = "[Frame 5, Deliver, Tick]"]
        frame_dropped [where ext = stub_externals and sys = "system_init stub_labels 0"
                         and msg = 1 and e = "OtherException ''predict''"
                         and cv_image = 1 and img = 1
                         and es = "[Frame 5, Deliver, Tick]"]
        frame_dropped [where ext = stub_externals and sys = "system_init stub_labels 0"
                         and msg = 7 and e = "OtherException ''list index out of range''"
                         and cv_image = 7 and img = 7 and predictions = 5
                         and class_index = 5 and es = "[]"]
  by (simp add: stub_externals_def stub_labels_def system_init_def classifier_init_def
        behavior_init_def image_callback_def try_body_def classify_def
        class_callback_def motion_loop_body_def motion_branch_def Let_def)

section \<open>The capture toggle\<close>

text \<open>
  C4. \<^verbatim>\<open>toggle_callback\<close> replaces the flag and logs the transition, nothing else. Two
  runs that receive the same events apart from the capture toggles, started from states
  that differ at most in the flag, publish the same labels and the same velocity
  commands.
\<close>

theorem capture_toggle_inert:
  assumes "filter (\<lambda>e. \<not> is_Toggle e) es1 = filter (\<lambda>e. \<not> is_Toggle e) es2"
  shows "toggle_callback s b =
           (s\<lparr>capture_enabled := b\<rparr>,
            [LogInfo (CaptureLog (if b then ''ACTIVADA'' else ''DESACTIVADA''))])
       \<and> published_labels (snd (run ext sys es1))
           = published_labels
               (snd (run ext (sys\<lparr>clf := (clf sys)\<lparr>capture_enabled := c\<rparr>\<rparr>) es2))
       \<and> published_twists (snd (run ext sys es1))
           = published_twists
               (snd (run ext (sys\<lparr>clf := (clf sys)\<lparr>capture_enabled := c\<rparr>\<rparr>) es2))"
proof -
  let ?sys' = "sys\<lparr>clf := (clf sys)\<lparr>capture_enabled := c\<rparr>\<rparr>"
  have rel: "same_but_flag sys ?sys'"
    by (simp add: same_but_flag_def)
  have "toggle_callback s b =
           (s\<lparr>capture_enabled := b\<rparr>,
            [LogInfo (CaptureLog (if b then ''ACTIVADA'' else ''DESACTIVADA''))])"
    by (simp add: toggle_callback_def Let_def)
  moreover have "published_labels (snd (run ext sys es1))
                   = published_labels (snd (run ext ?sys' es2))"
    using run_toggle_blind(1) [OF rel, of ext es1]
          run_toggle_blind(1) [OF same_but_flag_refl, of ext ?sys' es2] assms
    by simp
  moreover have "published_twists (snd (run ext sys es1))
                   = published_twists (snd (run ext ?sys' es2))"
    using run_toggle_blind(2) [OF rel, of ext es1]
          run_toggle_blind(2) [OF same_but_flag_refl, of ext ?sys' es2] assms
    by simp
  ultimately show ?thesis by simp
qed


theorem capture_toggle_inert_witness:
  "published_labels
     (snd (run stub_externals (system_init stub_labels 0)
             [Toggle False, Frame 4, Deliver, Tick]))
   = [''Turn_Left'']
   \<and> published_labels
     (snd (run stub_externals
             ((system_init stub_labels 0)
                \<lparr>clf := (clf (system_init stub_labels 0))\<lparr>capture_enabled := False\<rparr>\<rparr>)
             [Frame 4, Toggle True, Deliver, Toggle False, Tick]))
   = [''Turn_Left'']
   \<and> velocity_commands
     (snd (run stub_externals (system_init stub_labels 0)
             [Toggle False, Frame 4, Deliver, Tick]))
   = [(0.0, 0.5)]"
  using capture_toggle_inert
          [of "[Toggle False, Frame 4, Deliver, Tick]"
              "[Frame 4, Toggle True, Deliver, Toggle False, Tick]"
              _ _ stub_externals "system_init stub_labels 0" False]
  by (simp add: stub_externals_def stub_labels_def system_init_def classifier_init_def
        behavior_init_def image_callback_def try_body_def classify_def
        toggle_callback_def class_callback_def motion_loop_body_def motion_branch_def
        velocity_commands_def Twist_def Let_def)


section \<open>The stored pose\<close>

text \<open>
  C8. \<^verbatim>\<open>odom_callback\<close> writes \<^verbatim>\<open>robot_x\<close> and \<^verbatim>\<open>robot_y\<close> and nothing else: the
  command, the classifier's fields and the labels in flight are untouched, and it makes
  no call. Two runs that receive the same events apart from the odometry messages,
  started from states that differ at most in the stored pose, publish the same velocity
  commands (and the same labels).
\<close>

theorem pose_inert:
  assumes "filter (\<lambda>e. \<not> is_Odom e) es1 = filter (\<lambda>e. \<not> is_Odom e) es2"
  shows "odom_callback s x y = (s\<lparr>robot_x := x, robot_y := y\<rparr>, [])
       \<and> current_command (fst (odom_callback s x y)) = current_command s
       \<and> clf (fst (step ext sys (Odom x y))) = clf sys
       \<and> in_flight (fst (step ext sys (Odom x y))) = in_flight sys
       \<and> published_twists (snd (run ext sys es1))
           = published_twists
               (snd (run ext (sys\<lparr>beh := (beh sys)\<lparr>robot_x := x0, robot_y := y0\<rparr>\<rparr>) es2))
       \<and> published_labels (snd (run ext sys es1))
           = published_labels
               (snd (run ext (sys\<lparr>beh := (beh sys)\<lparr>robot_x := x0, robot_y := y0\<rparr>\<rparr>) es2))"
proof -
  let ?sys' = "sys\<lparr>beh := (beh sys)\<lparr>robot_x := x0, robot_y := y0\<rparr>\<rparr>"
  have rel: "same_but_pose sys ?sys'"
    by (simp add: same_but_pose_def)
  have "published_twists (snd (run ext sys es1))
          = published_twists (snd (run ext ?sys' es2))"
    using run_pose_blind(2) [OF rel, of ext es1]
          run_pose_blind(2) [OF same_but_pose_refl, of ext ?sys' es2] assms
    by simp
  moreover have "published_labels (snd (run ext sys es1))
                   = published_labels (snd (run ext ?sys' es2))"
    using run_pose_blind(1) [OF rel, of ext es1]
          run_pose_blind(1) [OF same_but_pose_refl, of ext ?sys' es2] assms
    by simp
  ultimately show ?thesis
    by (simp add: odom_callback_def)
qed

theorem pose_inert_witness:
  "velocity_commands
     (snd (run stub_externals (system_init stub_labels 0)
             [Odom 1 2, Tick, Frame 2, Odom 3 4, Deliver, Tick]))
   = [(0.2, 0.0), (0.0, 0.0)]
   \<and> published_twists
     (snd (run stub_externals (system_init stub_labels 0)
             [Odom 1 2, Tick, Frame 2, Odom 3 4, Deliver, Tick]))
   = published_twists
     (snd (run stub_externals
             ((system_init stub_labels 0)
                \<lparr>beh := (beh (system_init stub_labels 0))\<lparr>robot_x := 7, robot_y := 8\<rparr>\<rparr>)
             [Tick, Frame 2, Deliver, Odom 5 6, Tick]))"
  using pose_inert
          [of "[Odom 1 2, Tick, Frame 2, Odom 3 4, Deliver, Tick]"
              "[Tick, Frame 2, Deliver, Odom 5 6, Tick]"
              _ _ _ stub_externals "system_init stub_labels 0" 7 8]
  by (simp add: stub_externals_def stub_labels_def system_init_def classifier_init_def
        behavior_init_def image_callback_def try_body_def classify_def odom_callback_def
        class_callback_def motion_loop_body_def motion_branch_def
        velocity_commands_def Twist_def Let_def)

section \<open>The mapping has no memory\<close>

text \<open>
  C5. The velocity command of a pass is a function of the label the pass reads and of
  nothing else: two states of the process that hold the same label, whatever happened
  before and whatever their other fields, publish the same command, and the pass itself
  leaves every field as it was.
\<close>

theorem mapping_pure:
  assumes "current_command (beh s1) = current_command (beh s2)"
  shows "published_twists (snd (step ext1 s1 Tick)) = published_twists (snd (step ext2 s2 Tick))
       \<and> fst (step ext1 s1 Tick) = s1"
  using assms by (simp add: motion_loop_body_def Let_def case_prod_beta)

theorem mapping_pure_witness:
  "published_twists
     (snd (step stub_externals
             (fst (run stub_externals (system_init stub_labels 0)
                     [Frame 2, Deliver, Tick, Frame 4, Deliver, Odom 1 1]))
             Tick))
   = published_twists
     (snd (step stub_externals
             (fst (run stub_externals (system_init stub_labels 0)
                     [Toggle False, Frame 4, Frame 0, Deliver]))
             Tick))"
  using mapping_pure
          [of "fst (run stub_externals (system_init stub_labels 0)
                     [Frame 2, Deliver, Tick, Frame 4, Deliver, Odom 1 1])"
              "fst (run stub_externals (system_init stub_labels 0)
                     [Toggle False, Frame 4, Frame 0, Deliver])"
              stub_externals stub_externals]
  by (simp add: stub_externals_def stub_labels_def system_init_def classifier_init_def
        behavior_init_def image_callback_def try_body_def classify_def odom_callback_def
        toggle_callback_def class_callback_def Let_def)

section \<open>What happens under the lock\<close>

text \<open>
  C6. Neither side should log or do I/O while it holds \<^verbatim>\<open>command_lock\<close>. The control
  loop keeps to that: under the lock it only copies the label, and it logs the copy
  after the release. \<^verbatim>\<open>class_callback\<close> does not: on the message "Stop" it takes the
  lock, writes the field, reads it back and calls \<^verbatim>\<open>rospy.loginfo\<close> (line 110) before
  it leaves the \<^verbatim>\<open>with\<close> block of line 108.
\<close>

theorem set_logs_under_lock:
  "snd (class_callback behavior_init ''Stop'') =
     [Acquire, WriteCommand ''Stop'', ReadCommand ''Stop'', LogInfo (SignalLog ''Stop''),
      Release]
   \<and> held False (snd (class_callback behavior_init ''Stop'')) =
     [WriteCommand ''Stop'', ReadCommand ''Stop'', LogInfo (SignalLog ''Stop'')]
   \<and> \<not> quiet_while_locked (snd (class_callback behavior_init ''Stop''))
   \<and> held False (motion_loop_body (behavior_init\<lparr>current_command := ''Stop''\<rparr>)) =
     [ReadCommand ''Stop'']
   \<and> quiet_while_locked (motion_loop_body (behavior_init\<lparr>current_command := ''Stop''\<rparr>))"
  by (simp add: quiet_while_locked_def class_callback_def motion_loop_body_def
        motion_branch_def behavior_init_def Let_def)

section \<open>The control loop\<close>








section \<open>The classifier's counters and flag\<close>

lemma step_clf:
  "clf (fst (step ext sys e)) =
     (case e of Frame msg \<Rightarrow> (clf sys)\<lparr>image_count := image_count (clf sys) + 1\<rparr>
      | Toggle b \<Rightarrow> (clf sys)\<lparr>capture_enabled := b\<rparr>
      | _ \<Rightarrow> clf sys)"
  by (cases e)
     (simp_all add: case_prod_beta image_callback_fields toggle_callback_def Let_def
        split: list.split)

lemma run_clf:
  "labels (clf (fst (run ext sys es))) = labels (clf sys)
   \<and> debug_interval (clf (fst (run ext sys es))) = debug_interval (clf sys)
   \<and> image_count (clf (fst (run ext sys es)))
       = image_count (clf sys) + int (length (filter is_Frame es))
   \<and> ((\<forall>e\<in>set es. \<not> is_Toggle e) \<longrightarrow>
        capture_enabled (clf (fst (run ext sys es))) = capture_enabled (clf sys))"
proof (induction es arbitrary: sys)
  case Nil
  show ?case by simp
next
  case (Cons e es)
  show ?case
    using Cons.IH [of "fst (step ext sys e)"]
    by (cases e) (simp_all add: run_Cons step_clf del: run.simps(2) step.simps)
qed

lemma image_callback_ok:
  assumes "classify ext (labels s) msg = Inr (class_name, confidence)"
    and "debug_interval s \<noteq> 0"
  shows "snd (image_callback ext s msg) =
           (if (image_count s + 1) mod debug_interval s = 0
            then [LogInfo (ImageLog (image_count s + 1) class_name confidence)] else [])
           @ [PublishClass class_name]"
  using assms by (simp add: image_callback_def try_body_def Let_def)

text \<open>
  C9. \<^verbatim>\<open>__init__\<close> sets \<^verbatim>\<open>capture_enabled\<close> to true, and in a run that receives no
  toggle message the flag is still true after every event.
\<close>

theorem capture_default:
  assumes "\<forall>e\<in>set es. \<not> is_Toggle e"
  shows "capture_enabled (classifier_init ls now)
       \<and> capture_enabled (clf (system_init ls now))
       \<and> capture_enabled (clf (fst (run ext (system_init ls now) es)))"
  using assms run_clf [of ext "system_init ls now" es]
  by (simp add: system_init_def classifier_init_def)

theorem capture_default_witness:
  "capture_enabled
     (clf (fst (run stub_externals (system_init stub_labels 0)
                  [Frame 2, Deliver, Tick, Odom 1 2, Frame 0, Lose, Tick])))"
  using capture_default
          [of "[Frame 2, Deliver, Tick, Odom 1 2, Frame 0, Lose, Tick]" stub_labels 0
              stub_externals]
  by simp

text \<open>
  C10. \<^verbatim>\<open>image_callback\<close> adds one to \<^verbatim>\<open>image_count\<close> on every call, whether or not
  the frame then decodes and classifies, so after a run the counter is the number of
  frames received. A frame that classifies writes the diagnostic line exactly when its
  index among the received frames is a multiple of 10.
\<close>

theorem frame_counter:
  "image_count (fst (image_callback ext s msg)) = image_count s + 1
   \<and> image_count (clf (fst (run ext (system_init ls now) es)))
       = int (length (filter is_Frame es))
   \<and> (classify ext ls msg = Inr (class_name, confidence) \<longrightarrow>
        snd (step ext (fst (run ext (system_init ls now) es)) (Frame msg)) =
          (if (int (length (filter is_Frame es)) + 1) mod 10 = 0
           then [LogInfo (ImageLog (int (length (filter is_Frame es)) + 1)
                            class_name confidence)]
           else [])
          @ [PublishClass class_name])"
proof (intro conjI impI)
  show "image_count (fst (image_callback ext s msg)) = image_count s + 1"
    by (simp add: image_callback_fields)
next
  show "image_count (clf (fst (run ext (system_init ls now) es)))
          = int (length (filter is_Frame es))"
    using run_clf [of ext "system_init ls now" es]
    by (simp add: system_init_def classifier_init_def)
next
  let ?s = "clf (fst (run ext (system_init ls now) es))"
  assume ok: "classify ext ls msg = Inr (class_name, confidence)"
  have fields: "labels ?s = ls" "debug_interval ?s = 10"
    "image_count ?s = int (length (filter is_Frame es))"
    using run_clf [of ext "system_init ls now" es]
    by (simp_all add: system_init_def classifier_init_def)
  from ok have "classify ext (labels ?s) msg = Inr (class_name, confidence)"
    by (simp add: fields)
  from image_callback_ok [OF this] fields
  show "snd (step ext (fst (run ext (system_init ls now) es)) (Frame msg)) =
          (if (int (length (filter is_Frame es)) + 1) mod 10 = 0
           then [LogInfo (ImageLog (int (length (filter is_Frame es)) + 1)
                            class_name confidence)]
           else [])
          @ [PublishClass class_name]"
    by (simp add: case_prod_beta)
qed

theorem frame_counter_witness:
  "image_count
     (clf (fst (run stub_externals (system_init stub_labels 0)
                  [Frame 0, Frame 1, Frame 2, Frame 0, Frame 0, Frame 1, Frame 1, Frame 0,
                   Frame 1])))
   = 9
   \<and> snd (step stub_externals
          (fst (run stub_externals (system_init stub_labels 0)
                  [Frame 0, Frame 1, Frame 2, Frame 0, Frame 0, Frame 1, Frame 1, Frame 0,
                   Frame 1]))
          (Frame 3))
   = [LogInfo (ImageLog 10 ''Give_Way'' 0.9), PublishClass ''Give_Way'']"
  using frame_counter
          [where ext = stub_externals and s = "classifier_init stub_labels 0" and msg = 3
             and ls = stub_labels and now = 0 and class_name = "''Give_Way''"
             and confidence = "0.9"
             and es = "[Frame 0, Frame 1, Frame 2, Frame 0, Frame 0, Frame 1, Frame 1,
                        Frame 0, Frame 1]"]
  by (simp add: stub_externals_def stub_labels_def classify_def)

end
